theory Spec2Isabelle
  imports Main "HOL-Library.Word"
begin

unbundle bit_operations_syntax

section \<open>Python values used by multitopology.py\<close>

text \<open>
  The module is \<^verbatim>\<open>exabgp/bgp/message/update/nlri/bgpls/tlvs/multitopology.py\<close>.
  A \<^verbatim>\<open>bytes\<close> object is a list of 8-bit words, a Python \<^verbatim>\<open>int\<close> is an
  \<^typ>\<open>int\<close>, a \<^verbatim>\<open>str\<close> is a \<^typ>\<open>string\<close>. Every \<^verbatim>\<open>raise\<close> of the module and of
  the builtins it calls is a value of \<open>error\<close>, returned on the left of a sum.
\<close>

type_synonym byte = "8 word"

datatype error =
    StructError          \<comment> \<open>\<^verbatim>\<open>struct.error\<close>: the buffer is not 2 bytes long\<close>
  | RuntimeError string  \<comment> \<open>\<^verbatim>\<open>RuntimeError(msg)\<close>\<close>
  | TypeError            \<comment> \<open>\<^verbatim>\<open>len(None)\<close>\<close>

text \<open>\<^verbatim>\<open>xs[i:j]\<close> for \<open>0 \<le> i \<le> j\<close>: Python clamps both ends to the length.\<close>

definition bytes_slice :: "'a list \<Rightarrow> nat \<Rightarrow> nat \<Rightarrow> 'a list" where
  "bytes_slice xs i j = take (j - i) (drop i xs)"

text \<open>
  \<^verbatim>\<open>struct.unpack('!H', buf)[0]\<close>: one unsigned 16-bit integer in network (big-endian)
  byte order; a buffer of any other length than 2 raises \<^verbatim>\<open>struct.error\<close>.
\<close>

definition struct_unpack_H :: "byte list \<Rightarrow> error + int" where
  "struct_unpack_H buf =
     (if length buf = 2 then Inr (uint (buf ! 0) * 256 + uint (buf ! 1))
      else Inl StructError)"

text \<open>\<^verbatim>\<open>sep.join(parts)\<close>.\<close>

fun join :: "string \<Rightarrow> string list \<Rightarrow> string" where
  "join sep [] = []"
| "join sep [x] = x"
| "join sep (x # y # ys) = x @ sep @ join sep (y # ys)"

text \<open>The digit characters shared by \<^verbatim>\<open>bin\<close>, \<^verbatim>\<open>%d\<close> and \<^verbatim>\<open>%X\<close>.\<close>

definition digit_char :: "nat \<Rightarrow> char" where
  "digit_char d = ''0123456789ABCDEF'' ! (d mod 16)"

text \<open>The digits of a natural number in base \<open>b\<close>, most significant first, \<open>0\<close> as one digit.\<close>

fun digits :: "nat \<Rightarrow> nat \<Rightarrow> string" where
  "digits b n =
     (if b < 2 \<or> n < b then [digit_char n]
      else digits b (n div b) @ [digit_char (n mod b)])"

declare digits.simps [simp del]

text \<open>\<^verbatim>\<open>bin(n)\<close>: \<^verbatim>\<open>'0b101'\<close>, and \<^verbatim>\<open>'-0b101'\<close> for a negative number.\<close>

definition bin :: "int \<Rightarrow> string" where
  "bin n = (if n < 0 then ''-0b'' @ digits 2 (nat (- n)) else ''0b'' @ digits 2 (nat n))"

text \<open>\<^verbatim>\<open>'%d' % n\<close>.\<close>

definition fmt_d :: "int \<Rightarrow> string" where
  "fmt_d n = (if n < 0 then ''-'' @ digits 10 (nat (- n)) else digits 10 (nat n))"

text \<open>
  \<^verbatim>\<open>'%02X' % n\<close> for \<open>n \<ge> 0\<close>, as it is applied to the items of a \<^verbatim>\<open>bytes\<close> object:
  upper-case hexadecimal, padded with zeros on the left to a width of at least 2.
\<close>

definition fmt_02X :: "nat \<Rightarrow> string" where
  "fmt_02X n = (let s = digits 16 n in replicate (2 - length s) (CHR ''0'') @ s)"

section \<open>The class \<^verbatim>\<open>_Topology\<close>\<close>

text \<open>
  \<^verbatim>\<open>_Topology\<close> defines no \<^verbatim>\<open>__eq__\<close>, so two of its instances compare by object identity.
  An instance is therefore a record of its two attributes and of its identity; the
  constructor takes the next unused identity and returns the one after it. The module never
  assigns to an attribute after construction, so no store of attribute values is needed.
\<close>

record Topology =
  ident :: nat
  bits :: int
  tid :: int

definition Topology_init :: "int \<Rightarrow> int \<Rightarrow> nat \<Rightarrow> Topology \<times> nat" where
  "Topology_init b t fresh = (\<lparr>ident = fresh, bits = b, tid = t\<rparr>, Suc fresh)"

text \<open>\<^verbatim>\<open>a == b\<close> on two instances: the default \<^verbatim>\<open>object.__eq__\<close>, which is \<^verbatim>\<open>a is b\<close>.\<close>

definition Topology_eq :: "Topology \<Rightarrow> Topology \<Rightarrow> bool" where
  "Topology_eq a b = (ident a = ident b)"

text \<open>
  \<^verbatim>\<open>_Topology.json\<close>:
  \<^verbatim>\<open>'{ "bits": "%s", "multi-topology-id": %d }' % ((('0000' + bin(self.bits)[2:])[-4:]), self.tid)\<close>.
  \<^verbatim>\<open>s[-4:]\<close> is the last four characters of \<open>s\<close>, all of it when it is shorter.
\<close>

definition Topology_json :: "Topology \<Rightarrow> string" where
  "Topology_json self =
     (let s = ''0000'' @ drop 2 (bin (bits self))
      in ''{ \"bits\": \"'' @ drop (length s - 4) s @ ''\", \"multi-topology-id\": ''
           @ fmt_d (tid self) @ '' }'')"

section \<open>The class \<^verbatim>\<open>MTID\<close>\<close>

record MTID =
  topologies :: "Topology list"
  packed :: "byte list option"   \<comment> \<open>the attribute \<^verbatim>\<open>_packed\<close>; \<open>None\<close> is Python's \<^verbatim>\<open>None\<close>\<close>

definition MTID_init :: "Topology list \<Rightarrow> byte list option \<Rightarrow> MTID" where
  "MTID_init ts p = \<lparr>topologies = ts, packed = p\<rparr>"

text \<open>
  The loop of \<^verbatim>\<open>MTID.unpack\<close>, \<^verbatim>\<open>for i in range(0, len(data), 2)\<close>, from index \<open>i\<close> on, with
  the list \<^verbatim>\<open>tids\<close> built so far and the next unused object identity.
\<close>

function unpack_loop :: "byte list \<Rightarrow> nat \<Rightarrow> Topology list \<Rightarrow> nat \<Rightarrow> error + (Topology list \<times> nat)" where
  "unpack_loop data i tids fresh =
     (if i < length data then
        (case struct_unpack_H (bytes_slice data i (i + 2)) of
           Inl e \<Rightarrow> Inl e
         | Inr payload \<Rightarrow>
             (case Topology_init (drop_bit (16 - 4) payload) (payload AND 0x0FFF) fresh of
                (t, fresh') \<Rightarrow> unpack_loop data (i + 2) (tids @ [t]) fresh'))
      else Inr (tids, fresh))"
  by pat_completeness auto
termination
  by (relation "measure (\<lambda>(data, i, tids, fresh). length data - i)") auto

declare unpack_loop.simps [simp del]

definition unpack :: "byte list \<Rightarrow> nat \<Rightarrow> error + (MTID \<times> nat)" where
  "unpack data fresh =
     (case unpack_loop data 0 [] fresh of
        Inl e \<Rightarrow> Inl e
      | Inr (tids, fresh') \<Rightarrow> Inr (MTID_init tids (Some data), fresh'))"

text \<open>
  \<^verbatim>\<open>MTID.json\<close>: \<^verbatim>\<open>tids = ', '.join(_.json() for _ in self.topologies)\<close>, then
  \<^verbatim>\<open>f'[{tids}]'\<close>.
\<close>

definition MTID_json :: "MTID \<Rightarrow> string" where
  "MTID_json self = ''['' @ join '', '' (map Topology_json (topologies self)) @ '']''"

text \<open>
  \<^verbatim>\<open>MTID.__eq__\<close> is \<^verbatim>\<open>self.topologies == other.topologies\<close>, the equality of two Python
  lists: equal lengths, and each pair of items identical or equal under \<^verbatim>\<open>==\<close>.
\<close>

fun list_eq :: "Topology list \<Rightarrow> Topology list \<Rightarrow> bool" where
  "list_eq [] [] = True"
| "list_eq (x # xs) (y # ys) = ((ident x = ident y \<or> Topology_eq x y) \<and> list_eq xs ys)"
| "list_eq _ _ = False"

definition MTID_eq :: "MTID \<Rightarrow> MTID \<Rightarrow> bool" where
  "MTID_eq self other = list_eq (topologies self) (topologies other)"

text \<open>\<^verbatim>\<open>__lt__\<close>, \<^verbatim>\<open>__le__\<close>, \<^verbatim>\<open>__gt__\<close>, \<^verbatim>\<open>__ge__\<close>: each body is one \<^verbatim>\<open>raise\<close>.\<close>

definition MTID_lt :: "MTID \<Rightarrow> MTID \<Rightarrow> error + bool" where
  "MTID_lt self other = Inl (RuntimeError ''Not implemented'')"

definition MTID_le :: "MTID \<Rightarrow> MTID \<Rightarrow> error + bool" where
  "MTID_le self other = Inl (RuntimeError ''Not implemented'')"

definition MTID_gt :: "MTID \<Rightarrow> MTID \<Rightarrow> error + bool" where
  "MTID_gt self other = Inl (RuntimeError ''Not implemented'')"

definition MTID_ge :: "MTID \<Rightarrow> MTID \<Rightarrow> error + bool" where
  "MTID_ge self other = Inl (RuntimeError ''Not implemented'')"

text \<open>
  \<^verbatim>\<open>MTID.pack\<close>: \<^verbatim>\<open>if self._packed: return self._packed\<close>, else the \<^verbatim>\<open>raise\<close>. The test is
  Python's truth value: \<^verbatim>\<open>None\<close> is false, and so is a \<^verbatim>\<open>bytes\<close> object of length 0.
  Where the test is true the attribute is a \<^verbatim>\<open>bytes\<close> object, so the \<open>None\<close> case of
  the inner match is never reached.
\<close>

definition truth :: "byte list option \<Rightarrow> bool" where
  "truth p = (case p of None \<Rightarrow> False | Some bs \<Rightarrow> length bs \<noteq> 0)"

definition pack :: "MTID \<Rightarrow> error + byte list" where
  "pack self =
     (if truth (packed self)
      then (case packed self of Some bs \<Rightarrow> Inr bs | None \<Rightarrow> Inl TypeError)
      else Inl (RuntimeError ''Not implemented''))"

text \<open>\<^verbatim>\<open>MTID.__str__\<close>: \<^verbatim>\<open>':'.join('%02X' % _ for _ in self.pack())\<close>; \<^verbatim>\<open>__repr__\<close> calls it.\<close>

definition MTID_str :: "MTID \<Rightarrow> error + string" where
  "MTID_str self =
     (case pack self of
        Inl e \<Rightarrow> Inl e
      | Inr bs \<Rightarrow> Inr (join '':'' (map (\<lambda>b. fmt_02X (unat b)) bs)))"

definition MTID_repr :: "MTID \<Rightarrow> error + string" where
  "MTID_repr self = MTID_str self"

text \<open>\<^verbatim>\<open>MTID.__len__\<close>: \<^verbatim>\<open>len(self._packed)\<close>.\<close>

definition MTID_len :: "MTID \<Rightarrow> error + nat" where
  "MTID_len self = (case packed self of None \<Rightarrow> Inl TypeError | Some bs \<Rightarrow> Inr (length bs))"

text \<open>
  \<^verbatim>\<open>MTID.__hash__\<close>: \<^verbatim>\<open>hash(str(self))\<close>. The builtin \<^verbatim>\<open>hash\<close> on strings is outside the
  module (and salted per process), so it is the parameter \<open>H\<close>.
\<close>

definition MTID_hash :: "(string \<Rightarrow> int) \<Rightarrow> MTID \<Rightarrow> error + int" where
  "MTID_hash H self = (case MTID_str self of Inl e \<Rightarrow> Inl e | Inr s \<Rightarrow> Inr (H s))"

text \<open>
  The integer that \<^verbatim>\<open>struct.unpack('!H', data[j:j+2])[0]\<close> reads at offset \<open>j\<close> when both
  bytes are there; used to state what the loop computes.
\<close>

definition word_at :: "byte list \<Rightarrow> nat \<Rightarrow> int" where
  "word_at data j = uint (data ! j) * 256 + uint (data ! (j + 1))"

text \<open>
  Reading a string of decimal digits back as a number; used to state what \<^verbatim>\<open>%d\<close> produces.
\<close>

definition dec_value :: "string \<Rightarrow> nat" where
  "dec_value s = foldl (\<lambda>a c. 10 * a + (of_char c - 48)) 0 s"

section \<open>The decoding loop\<close>

lemma length_slice: "length (bytes_slice xs i (Suc (Suc i))) = min 2 (length xs - i)"
  by (simp add: bytes_slice_def)

lemma slice_two:
  "Suc (Suc i) \<le> length xs \<Longrightarrow> bytes_slice xs i (Suc (Suc i)) = [xs ! i, xs ! Suc i]"
proof -
  assume "Suc (Suc i) \<le> length xs"
  then have "drop i xs = xs ! i # drop (Suc i) xs"
    and "drop (Suc i) xs = xs ! Suc i # drop (Suc (Suc i)) xs"
    by (simp_all add: Cons_nth_drop_Suc)
  then show ?thesis by (simp add: bytes_slice_def numeral_2_eq_2)
qed

lemma struct_unpack_H_two: "struct_unpack_H [hi, lo] = Inr (uint hi * 256 + uint lo)"
  by (simp add: struct_unpack_H_def)

lemma struct_unpack_H_short: "length buf \<noteq> 2 \<Longrightarrow> struct_unpack_H buf = Inl StructError"
  by (simp add: struct_unpack_H_def)

text \<open>One iteration with a full word, the exit of the loop, and the iteration on a lone last byte.\<close>

lemma unpack_loop_step:
  "i + 2 \<le> length data \<Longrightarrow>
   unpack_loop data i tids fresh =
     unpack_loop data (i + 2)
       (tids @ [\<lparr>ident = fresh, bits = drop_bit 12 (word_at data i),
                  tid = word_at data i AND 0x0FFF\<rparr>])
       (Suc fresh)"
  by (subst unpack_loop.simps)
    (simp add: slice_two struct_unpack_H_two Topology_init_def word_at_def)

lemma unpack_loop_done: "length data \<le> i \<Longrightarrow> unpack_loop data i tids fresh = Inr (tids, fresh)"
  by (subst unpack_loop.simps) simp

lemma unpack_loop_partial:
  "length data = Suc i \<Longrightarrow> unpack_loop data i tids fresh = Inl StructError"
  by (subst unpack_loop.simps) (simp add: struct_unpack_H_short length_slice)

lemma unpack_loop_odd:
  "odd (length data - i) \<Longrightarrow> unpack_loop data i tids fresh = Inl StructError"
proof (induction data i tids fresh rule: unpack_loop.induct)
  case (1 data i tids fresh)
  show ?case
  proof (cases "Suc i = length data")
    case True
    then show ?thesis by (intro unpack_loop_partial) simp
  next
    case False
    have "i < length data" using "1.prems" by (cases "length data - i") auto
    with False have le: "i + 2 \<le> length data" by simp
    then have o: "odd (length data - (i + 2))" using "1.prems" by simp
    have "unpack_loop data (i + 2)
            (tids @ [\<lparr>ident = fresh, bits = drop_bit 12 (word_at data i),
                       tid = word_at data i AND 0x0FFF\<rparr>])
            (Suc fresh) = Inl StructError"
      using le o
      by (intro "1.IH")
        (simp_all add: slice_two struct_unpack_H_two Topology_init_def word_at_def)
    then show ?thesis by (simp add: unpack_loop_step [OF le])
  qed
qed

lemma unpack_loop_even:
  "even (length data - i) \<Longrightarrow>
   unpack_loop data i tids fresh =
     Inr (tids @ map (\<lambda>k. \<lparr>ident = fresh + k, bits = drop_bit 12 (word_at data (i + 2 * k)),
                            tid = word_at data (i + 2 * k) AND 0x0FFF\<rparr>)
                     [0..<(length data - i) div 2],
          fresh + (length data - i) div 2)"
proof (induction data i tids fresh rule: unpack_loop.induct)
  case (1 data i tids fresh)
  show ?case
  proof (cases "i < length data")
    case False
    then show ?thesis by (simp add: unpack_loop_done)
  next
    case True
    have "Suc i \<noteq> length data" using "1.prems" True by presburger
    with True have le: "i + 2 \<le> length data" by simp
    then have e: "even (length data - (i + 2))" using "1.prems" by simp
    from le have d: "(length data - i) div 2 = Suc ((length data - (i + 2)) div 2)"
      by arith
    let ?t = "\<lparr>ident = fresh, bits = drop_bit 12 (word_at data i),
                tid = word_at data i AND 0x0FFF\<rparr>"
    have "unpack_loop data (i + 2) (tids @ [?t]) (Suc fresh) =
       Inr ((tids @ [?t]) @
              map (\<lambda>k. \<lparr>ident = Suc fresh + k,
                         bits = drop_bit 12 (word_at data (i + 2 + 2 * k)),
                         tid = word_at data (i + 2 + 2 * k) AND 0x0FFF\<rparr>)
                  [0..<(length data - (i + 2)) div 2],
            Suc fresh + (length data - (i + 2)) div 2)"
      using True e le
      by (intro "1.IH")
        (simp_all add: slice_two struct_unpack_H_two Topology_init_def word_at_def)
    then show ?thesis
      by (simp add: unpack_loop_step [OF le] d map_upt_Suc add.assoc del: upt_Suc)
  qed
qed

lemma unpack_even:
  "even (length b) \<Longrightarrow>
   unpack b fresh =
     Inr (MTID_init
            (map (\<lambda>k. \<lparr>ident = fresh + k, bits = drop_bit 12 (word_at b (2 * k)),
                         tid = word_at b (2 * k) AND 0x0FFF\<rparr>) [0..<length b div 2])
            (Some b),
          fresh + length b div 2)"
  by (simp add: unpack_def unpack_loop_even)

lemma unpack_empty: "unpack [] fresh = Inr (MTID_init [] (Some []), fresh)"
  by (simp add: unpack_def unpack_loop_done)

lemma unpack_1005:
  "unpack [0x10, 0x05] fresh =
     Inr (MTID_init [\<lparr>ident = fresh, bits = 1, tid = 5\<rparr>] (Some [0x10, 0x05]), Suc fresh)"
  by (simp add: unpack_even word_at_def)

section \<open>Splitting a 16-bit word\<close>

lemma split_word: "push_bit 12 (drop_bit 12 x) OR (x AND 0x0FFF) = (x :: int)"
proof -
  have m: "(0x0FFF :: int) = mask 12" by (simp add: mask_eq_exp_minus_1)
  show ?thesis unfolding m
    by (rule bit_eqI) (auto simp: bit_simps)
qed

lemma uint16_take: "take_bit 16 (uint (w :: 16 word)) = uint w"
  using uint_bounded [of w] by (intro take_bit_int_eq_self) simp_all

lemma uint16_drop: "uint (drop_bit n (w :: 16 word)) = drop_bit n (uint w)"
  unfolding unsigned_drop_bit_eq by (simp add: uint16_take)

text \<open>The two bytes of a 16-bit word in network order are read back as that word.\<close>

lemma word_at_bytes:
  fixes w :: "16 word"
  shows "word_at [ucast (drop_bit 8 w), ucast w] 0 = uint w"
proof -
  have lo: "uint (ucast w :: byte) = uint w mod 256"
    by (simp add: unsigned_ucast_eq take_bit_eq_mod)
  have "uint w < 65536" using uint_bounded [of w] by simp
  then have "uint w div 256 < 256" "0 \<le> uint w div 256"
    by (simp_all add: div_int_pos_iff)
  then have hi: "uint (ucast (drop_bit 8 w) :: byte) = uint w div 256"
    unfolding unsigned_ucast_eq uint16_drop
    by (simp add: take_bit_eq_mod drop_bit_eq_div)
  show ?thesis by (simp add: word_at_def lo hi)
qed

text \<open>
  Every entry that \<^verbatim>\<open>MTID.unpack\<close> builds has a 4-bit \<^verbatim>\<open>bits\<close> and a 12-bit \<^verbatim>\<open>tid\<close>.
\<close>

lemma word_at_range: "0 \<le> word_at data j \<and> word_at data j < 65536"
proof -
  have "uint (data ! j) < 256" "uint (data ! (j + 1)) < 256"
    using uint_bounded [of "data ! j"] uint_bounded [of "data ! (j + 1)"] by simp_all
  then show ?thesis by (simp add: word_at_def)
qed

lemma split_range:
  assumes "0 \<le> x" "x < 65536"
  shows "0 \<le> drop_bit 12 x \<and> drop_bit 12 x < 16 \<and>
         0 \<le> x AND 0x0FFF \<and> x AND 0x0FFF < (4096 :: int)"
proof -
  have "x AND 0x0FFF \<le> 0x0FFF" by (rule AND_upper2) simp
  moreover have "0 \<le> x div 4096" "x div 4096 < 16" using assms by simp_all
  ultimately show ?thesis using assms by (simp add: drop_bit_eq_div)
qed

lemma unpack_ranges:
  assumes "unpack b fresh = Inr (m, fresh')" and "e \<in> set (topologies m)"
  shows "0 \<le> bits e \<and> bits e < 16 \<and> 0 \<le> tid e \<and> tid e < 4096"
proof -
  have ev: "even (length b)"
  proof (rule ccontr)
    assume "odd (length b)"
    then have "unpack b fresh = Inl StructError" by (simp add: unpack_def unpack_loop_odd)
    with assms(1) show False by simp
  qed
  from assms obtain k where
    "e = \<lparr>ident = fresh + k, bits = drop_bit 12 (word_at b (2 * k)),
           tid = word_at b (2 * k) AND 0x0FFF\<rparr>"
    by (auto simp: unpack_even [OF ev] MTID_init_def)
  then show ?thesis
    using split_range [OF word_at_range [of b "2 * k", THEN conjunct1]
                          word_at_range [of b "2 * k", THEN conjunct2]]
    by simp
qed

section \<open>Rendering\<close>

lemma join_Cons: "join sep (x # xs) = x @ concat (map (\<lambda>y. sep @ y) xs)"
  by (induction xs arbitrary: x) simp_all

lemma digits_small: "n < b \<Longrightarrow> digits b n = [digit_char n]"
  by (subst digits.simps) simp

lemma digits_two:
  "2 \<le> b \<Longrightarrow> b \<le> n \<Longrightarrow> n < b * b \<Longrightarrow>
   digits b n = [digit_char (n div b), digit_char (n mod b)]"
proof -
  assume b: "2 \<le> b" and n: "b \<le> n" "n < b * b"
  then have "n div b < b" by (simp add: less_mult_imp_div_less)
  then show ?thesis using b n by (subst digits.simps) (simp add: digits_small)
qed

text \<open>\<^verbatim>\<open>'%02X'\<close> on a byte is always its two hexadecimal digits.\<close>

lemma fmt_02X_byte:
  "fmt_02X (unat (c :: byte)) = [digit_char (unat c div 16), digit_char (unat c mod 16)]"
proof (cases "unat c < 16")
  case True
  then show ?thesis by (simp add: fmt_02X_def digits_small digit_char_def)
next
  case False
  have "unat c < 256" using unsigned_less [of c, where 'a = nat] by simp
  with False show ?thesis by (simp add: fmt_02X_def digits_two)
qed

lemma MTID_str_pack:
  "MTID_str m =
     map_sum id
       (\<lambda>bs. join '':'' (map (\<lambda>c. [digit_char (unat c div 16), digit_char (unat c mod 16)]) bs))
       (pack m)"
  by (cases "pack m") (simp_all add: MTID_str_def fmt_02X_byte)

text \<open>\<^verbatim>\<open>('0000' + bin(b)[2:])[-4:]\<close> on a 4-bit value is its four binary digits.\<close>

lemma bits_field:
  assumes "0 \<le> b" "b < 16"
  shows "drop (length (''0000'' @ drop 2 (bin b)) - 4) (''0000'' @ drop 2 (bin b)) =
         map (\<lambda>k. if bit b k then CHR ''1'' else CHR ''0'') [3, 2, 1, 0]"
proof -
  from assms have "b \<in> {0, 1, 2, 3, 4, 5, 6, 7, 8, 9, 10, 11, 12, 13, 14, 15}"
    by simp presburger
  then show ?thesis
    by (elim insertE emptyE) (simp_all add: bin_def digits.simps digit_char_def)
qed

lemma Topology_json_1_5:
  "Topology_json \<lparr>ident = i, bits = 1, tid = 5\<rparr> =
     ''{ \"bits\": \"0001\", \"multi-topology-id\": 5 }''"
  by (simp add: Topology_json_def bin_def fmt_d_def digits.simps digit_char_def)

text \<open>
  \<^verbatim>\<open>'%d'\<close> on a number that is not negative: decimal digits only, which read back as the
  number, with no leading zero.
\<close>

lemma digit_char_dec:
  assumes "k < 10"
  shows "digit_char k \<in> set ''0123456789'' \<and> of_char (digit_char k) = (48 + k :: nat)"
proof -
  from assms have "k \<in> {0, 1, 2, 3, 4, 5, 6, 7, 8, 9}" by simp presburger
  then show ?thesis
    by (elim insertE emptyE) (simp_all add: digit_char_def)
qed

lemma digits10_step: "10 \<le> n \<Longrightarrow> digits 10 n = digits 10 (n div 10) @ [digit_char (n mod 10)]"
  by (subst digits.simps) simp

lemma digits_nonempty: "digits b n \<noteq> []"
  by (subst digits.simps) simp

lemma digits10_chars: "list_all (\<lambda>c. c \<in> set ''0123456789'') (digits 10 n)"
proof (induction n rule: less_induct)
  case (less n)
  show ?case
  proof (cases "n < 10")
    case True
    then show ?thesis using digit_char_dec [of n] by (simp add: digits_small)
  next
    case False
    then have "n div 10 < n" by simp
    from less.IH [OF this] False digit_char_dec [of "n mod 10"] show ?thesis
      by (simp add: digits10_step)
  qed
qed

lemma digits10_value: "dec_value (digits 10 n) = n"
proof (induction n rule: less_induct)
  case (less n)
  show ?case
  proof (cases "n < 10")
    case True
    then show ?thesis using digit_char_dec [of n] by (simp add: digits_small dec_value_def)
  next
    case False
    then have "n div 10 < n" by simp
    from less.IH [OF this] False digit_char_dec [of "n mod 10"] show ?thesis
      by (simp add: digits10_step dec_value_def)
  qed
qed

lemma digits10_no_leading_zero: "0 < n \<Longrightarrow> hd (digits 10 n) \<noteq> CHR ''0''"
proof (induction n rule: less_induct)
  case (less n)
  show ?case
  proof (cases "n < 10")
    case True
    with less.prems have "n \<in> {1, 2, 3, 4, 5, 6, 7, 8, 9}" by simp presburger
    then show ?thesis
      by (elim insertE emptyE) (simp_all add: digits_small digit_char_def)
  next
    case False
    then have "n div 10 < n" "0 < n div 10" by simp_all
    from less.IH [OF this] False show ?thesis
      by (simp add: digits10_step digits_nonempty)
  qed
qed

lemma fmt_d_4095: "fmt_d 4095 = ''4095''"
  by (simp add: fmt_d_def digits.simps digit_char_def)

lemma unpack_AFFF:
  "unpack [0xAF, 0xFF] fresh =
     Inr (MTID_init [\<lparr>ident = fresh, bits = 10, tid = 4095\<rparr>] (Some [0xAF, 0xFF]), Suc fresh)"
  by (simp add: unpack_even word_at_def)

lemma Topology_json_10_4095:
  "Topology_json \<lparr>ident = i, bits = 10, tid = 4095\<rparr> =
     ''{ \"bits\": \"1010\", \"multi-topology-id\": 4095 }''"
  by (simp add: Topology_json_def bin_def fmt_d_def digits.simps digit_char_def)

lemma unpack_two_words:
  "unpack [0xAF, 0xFF, 0x00, 0x2A] fresh =
     Inr (MTID_init [\<lparr>ident = fresh, bits = 10, tid = 4095\<rparr>,
                     \<lparr>ident = Suc fresh, bits = 0, tid = 42\<rparr>]
            (Some [0xAF, 0xFF, 0x00, 0x2A]), Suc (Suc fresh))"
  by (simp add: unpack_even word_at_def upt_rec)

lemma Topology_json_0_42:
  "Topology_json \<lparr>ident = i, bits = 0, tid = 42\<rparr> =
     ''{ \"bits\": \"0000\", \"multi-topology-id\": 42 }''"
  by (simp add: Topology_json_def bin_def fmt_d_def digits.simps digit_char_def)

section \<open>Encoding\<close>

lemma pack_None: "pack (MTID_init ts None) = Inl (RuntimeError ''Not implemented'')"
  by (simp add: pack_def truth_def MTID_init_def)

lemma pack_empty: "pack (MTID_init ts (Some [])) = Inl (RuntimeError ''Not implemented'')"
  by (simp add: pack_def truth_def MTID_init_def)

lemma pack_nonempty: "bs \<noteq> [] \<Longrightarrow> pack (MTID_init ts (Some bs)) = Inr bs"
  by (simp add: pack_def truth_def MTID_init_def)

text \<open>Decoding and encoding again gives the input back whenever the input is not empty.\<close>

lemma round_trip_nonempty:
  "even (length b) \<Longrightarrow> b \<noteq> [] \<Longrightarrow>
   \<exists>m fresh'. unpack b fresh = Inr (m, fresh') \<and> pack m = Inr b"
  by (simp add: unpack_even pack_nonempty)

section \<open>Properties of the codec\<close>

text \<open>
  C1. The specification states that for every even-length byte sequence \<open>b\<close>, \<^verbatim>\<open>MTID.unpack(b).pack() == b\<close>.
  The code does not do this at the empty sequence, which has even length: decoding it
  succeeds and stores \<^verbatim>\<open>b''\<close> as the cache, and \<^verbatim>\<open>pack\<close> then takes the cache for absent
  and does not return the empty sequence.
\<close>

theorem round_trip_fails_on_empty:
  "\<exists>m fresh'. unpack [] fresh = Inr (m, fresh') \<and> pack m \<noteq> Inr []"
  by (simp add: unpack_empty pack_empty)

text \<open>
  C3. For every byte sequence of odd length, \<^verbatim>\<open>MTID.unpack\<close> fails with the decoding error
  of \<^verbatim>\<open>struct.unpack\<close>; it returns no field, so the last byte is not dropped silently.
\<close>

theorem unpack_odd_length:
  "odd (length b) \<Longrightarrow> unpack b fresh = Inl StructError"
  by (simp add: unpack_def unpack_loop_odd)

theorem unpack_odd_length_witness:
  "odd (length [0x10, 0x05, 0x20 :: byte]) \<and> unpack [0x10, 0x05, 0x20] 0 = Inl StructError"
  using unpack_odd_length [of "[0x10, 0x05, 0x20]" 0] by simp

text \<open>
  C5. For every byte sequence \<open>b\<close> of even length, \<^verbatim>\<open>MTID.unpack(b)\<close> returns a field with
  \<open>length b div 2\<close> entries, and entry \<open>i\<close> holds the two parts of the big-endian 16-bit
  integer made of the bytes \<open>2 * i\<close> and \<open>2 * i + 1\<close> of \<open>b\<close>.
\<close>

theorem unpack_entries:
  assumes "even (length b)"
  shows "\<exists>m fresh'. unpack b fresh = Inr (m, fresh') \<and>
           length (topologies m) = length b div 2 \<and>
           (\<forall>i < length b div 2.
              bits (topologies m ! i) =
                drop_bit 12 (uint (b ! (2 * i)) * 256 + uint (b ! (2 * i + 1))) \<and>
              tid (topologies m ! i) =
                (uint (b ! (2 * i)) * 256 + uint (b ! (2 * i + 1))) AND 0x0FFF)"
  using assms by (simp add: unpack_even MTID_init_def word_at_def)

theorem unpack_entries_witness:
  "even (length [0x10, 0x05, 0xA0, 0x07 :: byte]) \<and>
   (\<exists>m fresh'. unpack [0x10, 0x05, 0xA0, 0x07] 0 = Inr (m, fresh') \<and>
      length (topologies m) = 2 \<and>
      bits (topologies m ! 0) = 1 \<and> tid (topologies m ! 0) = 5 \<and>
      bits (topologies m ! 1) = 10 \<and> tid (topologies m ! 1) = 7)"
proof -
  let ?b = "[0x10, 0x05, 0xA0, 0x07 :: byte]"
  have e: "even (length ?b)" by simp
  from unpack_entries [OF e, of 0] obtain m fresh' where
    u: "unpack ?b 0 = Inr (m, fresh')" and
    l: "length (topologies m) = length ?b div 2" and
    a: "\<forall>i < length ?b div 2.
          bits (topologies m ! i) =
            drop_bit 12 (uint (?b ! (2 * i)) * 256 + uint (?b ! (2 * i + 1))) \<and>
          tid (topologies m ! i) =
            (uint (?b ! (2 * i)) * 256 + uint (?b ! (2 * i + 1))) AND 0x0FFF"
    by blast
  from a have "bits (topologies m ! 0) = 1 \<and> tid (topologies m ! 0) = 5" by simp
  moreover from a [rule_format, of 1]
  have "bits (topologies m ! 1) = 10 \<and> tid (topologies m ! 1) = 7" by simp
  ultimately show ?thesis using e u l by simp
qed

text \<open>
  C6. Each of \<^verbatim>\<open>a < b\<close>, \<^verbatim>\<open>a <= b\<close>, \<^verbatim>\<open>a > b\<close>, \<^verbatim>\<open>a >= b\<close> on two fields raises
  \<^verbatim>\<open>RuntimeError('Not implemented')\<close>; none returns a result.
\<close>

theorem ordering_raises:
  "MTID_lt a b = Inl (RuntimeError ''Not implemented'') \<and>
   MTID_le a b = Inl (RuntimeError ''Not implemented'') \<and>
   MTID_gt a b = Inl (RuntimeError ''Not implemented'') \<and>
   MTID_ge a b = Inl (RuntimeError ''Not implemented'')"
  by (simp add: MTID_lt_def MTID_le_def MTID_gt_def MTID_ge_def)

text \<open>
  C10. Decoding the empty byte sequence gives the field with no entry and the empty cache;
  on that field \<^verbatim>\<open>pack\<close>, \<^verbatim>\<open>__str__\<close>, \<^verbatim>\<open>__repr__\<close> and \<^verbatim>\<open>__hash__\<close> all raise
  \<^verbatim>\<open>RuntimeError('Not implemented')\<close>.
\<close>

theorem empty_field_unencodable:
  "unpack [] fresh = Inr (MTID_init [] (Some []), fresh) \<and>
   pack (MTID_init [] (Some [])) = Inl (RuntimeError ''Not implemented'') \<and>
   MTID_str (MTID_init [] (Some [])) = Inl (RuntimeError ''Not implemented'') \<and>
   MTID_repr (MTID_init [] (Some [])) = Inl (RuntimeError ''Not implemented'') \<and>
   MTID_hash H (MTID_init [] (Some [])) = Inl (RuntimeError ''Not implemented'')"
  by (simp add: unpack_empty pack_empty MTID_str_def MTID_repr_def MTID_hash_def)

text \<open>
  C2. The specification states that two fields are equal exactly when their entry sequences have the same length
  and the entries at each position have equal \<^verbatim>\<open>bits\<close> and equal \<^verbatim>\<open>tid\<close>; in particular
  \<^verbatim>\<open>MTID.unpack(bytes([0x10,0x05])) == MTID.unpack(bytes([0x10,0x05]))\<close>. The code compares
  the two lists of \<^verbatim>\<open>_Topology\<close> objects, and that class has no \<^verbatim>\<open>__eq__\<close>: decoding the same
  two bytes twice gives entries with the same attribute values and two fields that are not
  equal.
\<close>

theorem eq_is_identity_of_entries:
  "\<exists>a b n1 n2.
     unpack [0x10, 0x05] 0 = Inr (a, n1) \<and> unpack [0x10, 0x05] n1 = Inr (b, n2) \<and>
     map bits (topologies a) = map bits (topologies b) \<and>
     map tid (topologies a) = map tid (topologies b) \<and>
     \<not> MTID_eq a b"
  by (simp add: unpack_1005 MTID_init_def MTID_eq_def Topology_eq_def)

text \<open>
  C4. For every 16-bit word \<open>w\<close>, decoding its two bytes gives one entry whose \<^verbatim>\<open>bits\<close> is
  \<open>w >> 12\<close> and whose \<^verbatim>\<open>tid\<close> is \<open>w & 0x0FFF\<close>, and \<open>w = (bits << 12) | tid\<close>; the word
  \<open>0x1005\<close> gives \<open>bits = 1\<close> and \<open>tid = 5\<close>.
\<close>

theorem bit_split:
  fixes w :: "16 word"
  shows "(\<exists>e fresh'.
            unpack [ucast (drop_bit 8 w), ucast w] fresh =
              Inr (MTID_init [e] (Some [ucast (drop_bit 8 w), ucast w]), fresh') \<and>
            bits e = uint (drop_bit 12 w) \<and>
            tid e = uint (w AND 0x0FFF) \<and>
            uint w = push_bit 12 (bits e) OR tid e) \<and>
         (\<exists>e fresh'.
            unpack [0x10, 0x05] fresh = Inr (MTID_init [e] (Some [0x10, 0x05]), fresh') \<and>
            bits e = 1 \<and> tid e = 5)"
proof
  let ?e = "\<lparr>ident = fresh, bits = drop_bit 12 (uint w), tid = uint w AND 0x0FFF\<rparr>"
  have u: "unpack [ucast (drop_bit 8 w), ucast w] fresh =
          Inr (MTID_init [?e] (Some [ucast (drop_bit 8 w), ucast w]), Suc fresh)"
    using word_at_bytes [of w] by (simp add: unpack_even)
  have b: "bits ?e = uint (drop_bit 12 w)"
    by (simp only: uint16_drop Topology.simps)
  have t: "tid ?e = uint (w AND 0x0FFF)"
    by (simp add: uint_and)
  have r: "uint w = push_bit 12 (bits ?e) OR tid ?e"
    using split_word [of "uint w"] by simp
  from u b t r show "\<exists>e fresh'.
            unpack [ucast (drop_bit 8 w), ucast w] fresh =
              Inr (MTID_init [e] (Some [ucast (drop_bit 8 w), ucast w]), fresh') \<and>
            bits e = uint (drop_bit 12 w) \<and>
            tid e = uint (w AND 0x0FFF) \<and>
            uint w = push_bit 12 (bits e) OR tid e"
    by blast
next
  let ?e = "\<lparr>ident = fresh, bits = 1, tid = 5\<rparr>"
  have "bits ?e = 1" "tid ?e = 5" by simp_all
  with unpack_1005 [of fresh] show "\<exists>e fresh'.
            unpack [0x10, 0x05] fresh = Inr (MTID_init [e] (Some [0x10, 0x05]), fresh') \<and>
            bits e = 1 \<and> tid e = 5"
    by blast
qed

text \<open>
  C7. The specification states that \<^verbatim>\<open>pack()\<close> raises on a field built without a cache, and returns the cache
  unchanged when there is one. The first half holds. The second fails on the field whose
  cache is the empty byte string: the cache is there, and \<^verbatim>\<open>pack()\<close> raises as if it were
  not.
\<close>

theorem pack_empty_cache_raises:
  "pack (MTID_init ts None) = Inl (RuntimeError ''Not implemented'') \<and>
   pack (MTID_init ts (Some [])) = Inl (RuntimeError ''Not implemented'')"
  by (simp add: pack_empty pack_None)

text \<open>
  C8. The rendering of an entry whose \<^verbatim>\<open>bits\<close> is a 4-bit value is the record with the four
  binary digits of \<^verbatim>\<open>bits\<close>, most significant first, and \<^verbatim>\<open>tid\<close> as a decimal integer:
  for \<^verbatim>\<open>tid\<close> not negative, decimal digits that read back as \<^verbatim>\<open>tid\<close>, without a leading
  zero (\<open>0\<close> is \<^verbatim>\<open>0\<close>, \<open>4095\<close> is \<^verbatim>\<open>4095\<close>), and a minus sign before the digits of a
  negative one. Decoding \<open>0x10 0x05\<close> gives one entry with \<open>bits = 1\<close> and \<open>tid = 5\<close>,
  rendered \<^verbatim>\<open>{ "bits": "0001", "multi-topology-id": 5 }\<close>. The rendering of a field is its
  entries' renderings between brackets, separated by a comma and a space, as for the two
  words \<open>0xAFFF 0x002A\<close>.
\<close>

theorem json_rendering:
  assumes "0 \<le> bits t" and "bits t < 16"
  shows "Topology_json t =
           ''{ \"bits\": \"''
             @ map (\<lambda>k. if bit (bits t) k then CHR ''1'' else CHR ''0'') [3, 2, 1, 0]
             @ ''\", \"multi-topology-id\": '' @ fmt_d (tid t) @ '' }'' \<and>
         (0 \<le> tid t \<longrightarrow>
            fmt_d (tid t) \<noteq> [] \<and>
            list_all (\<lambda>c. c \<in> set ''0123456789'') (fmt_d (tid t)) \<and>
            dec_value (fmt_d (tid t)) = nat (tid t) \<and>
            (0 < tid t \<longrightarrow> hd (fmt_d (tid t)) \<noteq> CHR ''0'')) \<and>
         (tid t < 0 \<longrightarrow> fmt_d (tid t) = CHR ''-'' # fmt_d (- tid t)) \<and>
         fmt_d 0 = ''0'' \<and> fmt_d 4095 = ''4095'' \<and>
         (\<exists>m e fresh'.
            unpack [0x10, 0x05] fresh = Inr (m, fresh') \<and> topologies m = [e] \<and>
            bits e = 1 \<and> tid e = 5 \<and>
            Topology_json e = ''{ \"bits\": \"0001\", \"multi-topology-id\": 5 }'' \<and>
            MTID_json m = ''[{ \"bits\": \"0001\", \"multi-topology-id\": 5 }]'') \<and>
         (\<exists>m fresh'.
            unpack [0xAF, 0xFF, 0x00, 0x2A] fresh = Inr (m, fresh') \<and>
            MTID_json m =
              ''[{ \"bits\": \"1010\", \"multi-topology-id\": 4095 }, { \"bits\": \"0000\", \"multi-topology-id\": 42 }]'') \<and>
         MTID_json \<lparr>topologies = [], packed = p\<rparr> = ''[]'' \<and>
         MTID_json \<lparr>topologies = u # us, packed = p\<rparr> =
           ''['' @ Topology_json u @ concat (map (\<lambda>v. '', '' @ Topology_json v) us) @ '']''"
proof (intro conjI)
  show "Topology_json t =
           ''{ \"bits\": \"''
             @ map (\<lambda>k. if bit (bits t) k then CHR ''1'' else CHR ''0'') [3, 2, 1, 0]
             @ ''\", \"multi-topology-id\": '' @ fmt_d (tid t) @ '' }''"
    unfolding Topology_json_def Let_def bits_field [OF assms] by simp
next
  show "0 \<le> tid t \<longrightarrow>
            fmt_d (tid t) \<noteq> [] \<and>
            list_all (\<lambda>c. c \<in> set ''0123456789'') (fmt_d (tid t)) \<and>
            dec_value (fmt_d (tid t)) = nat (tid t) \<and>
            (0 < tid t \<longrightarrow> hd (fmt_d (tid t)) \<noteq> CHR ''0'')"
    using digits10_chars [of "nat (tid t)"] digits10_no_leading_zero [of "nat (tid t)"]
    by (simp add: fmt_d_def digits_nonempty digits10_value)
next
  show "tid t < 0 \<longrightarrow> fmt_d (tid t) = CHR ''-'' # fmt_d (- tid t)"
    by (simp add: fmt_d_def)
next
  show "fmt_d 0 = ''0''"
    by (simp add: fmt_d_def digits.simps digit_char_def)
next
  show "fmt_d 4095 = ''4095''" by (rule fmt_d_4095)
next
  let ?e = "\<lparr>ident = fresh, bits = 1, tid = 5\<rparr>"
  let ?m = "MTID_init [?e] (Some [0x10, 0x05])"
  have "MTID_json ?m = ''[{ \"bits\": \"0001\", \"multi-topology-id\": 5 }]''"
    by (simp add: MTID_json_def MTID_init_def Topology_json_1_5)
  moreover have "topologies ?m = [?e]" by (simp add: MTID_init_def)
  moreover have "bits ?e = 1" "tid ?e = 5" by simp_all
  moreover note unpack_1005 [of fresh] Topology_json_1_5 [of fresh]
  ultimately show "\<exists>m e fresh'.
            unpack [0x10, 0x05] fresh = Inr (m, fresh') \<and> topologies m = [e] \<and>
            bits e = 1 \<and> tid e = 5 \<and>
            Topology_json e = ''{ \"bits\": \"0001\", \"multi-topology-id\": 5 }'' \<and>
            MTID_json m = ''[{ \"bits\": \"0001\", \"multi-topology-id\": 5 }]''"
    by blast
next
  let ?m = "MTID_init [\<lparr>ident = fresh, bits = 10, tid = 4095\<rparr>,
                     \<lparr>ident = Suc fresh, bits = 0, tid = 42\<rparr>]
            (Some [0xAF, 0xFF, 0x00, 0x2A])"
  have "MTID_json ?m =
          ''[{ \"bits\": \"1010\", \"multi-topology-id\": 4095 }, { \"bits\": \"0000\", \"multi-topology-id\": 42 }]''"
    by (simp add: MTID_json_def MTID_init_def Topology_json_10_4095 Topology_json_0_42)
  with unpack_two_words [of fresh] show "\<exists>m fresh'.
            unpack [0xAF, 0xFF, 0x00, 0x2A] fresh = Inr (m, fresh') \<and>
            MTID_json m =
              ''[{ \"bits\": \"1010\", \"multi-topology-id\": 4095 }, { \"bits\": \"0000\", \"multi-topology-id\": 42 }]''"
    by blast
next
  show "MTID_json \<lparr>topologies = [], packed = p\<rparr> = ''[]''"
    by (simp add: MTID_json_def)
next
  show "MTID_json \<lparr>topologies = u # us, packed = p\<rparr> =
           ''['' @ Topology_json u @ concat (map (\<lambda>v. '', '' @ Topology_json v) us) @ '']''"
    by (simp add: MTID_json_def join_Cons comp_def)
qed

theorem json_rendering_witness:
  "(0 :: int) \<le> 5 \<and> (5 :: int) < 16 \<and> (0 :: int) \<le> 4095 \<and>
   Topology_json \<lparr>ident = 0, bits = 5, tid = 4095\<rparr> =
     ''{ \"bits\": \"0101\", \"multi-topology-id\": 4095 }'' \<and>
   dec_value ''4095'' = 4095"
  using json_rendering [of "\<lparr>ident = 0, bits = 5, tid = 4095\<rparr>"]
  by (simp add: fmt_d_4095)

text \<open>
  C9. \<^verbatim>\<open>hash(field)\<close> is \<^verbatim>\<open>hash\<close> of \<^verbatim>\<open>str(field)\<close>, and \<^verbatim>\<open>str(field)\<close> is the bytes of
  \<^verbatim>\<open>field.pack()\<close>, each as two upper-case hexadecimal digits, joined by colons, as in
  \<^verbatim>\<open>12:34:AB:CD\<close>; both fail with the error of \<^verbatim>\<open>pack()\<close> when \<^verbatim>\<open>pack()\<close> fails, which it
  does on a field without a cache.
\<close>

theorem hash_of_str:
  "MTID_hash H m = map_sum id H (MTID_str m) \<and>
   MTID_str m =
     map_sum id
       (\<lambda>bs. join '':'' (map (\<lambda>c. [digit_char (unat c div 16), digit_char (unat c mod 16)]) bs))
       (pack m) \<and>
   MTID_str (MTID_init ts (Some (c # cs))) =
     Inr ([digit_char (unat c div 16), digit_char (unat c mod 16)] @
          concat (map (\<lambda>d. [CHR '':'', digit_char (unat d div 16), digit_char (unat d mod 16)]) cs)) \<and>
   MTID_str (MTID_init ts (Some [0x12, 0x34, 0xAB, 0xCD])) = Inr ''12:34:AB:CD'' \<and>
   MTID_hash H (MTID_init ts None) = Inl (RuntimeError ''Not implemented'') \<and>
   pack (MTID_init ts None) = Inl (RuntimeError ''Not implemented'')"
proof (intro conjI)
  show "MTID_hash H m = map_sum id H (MTID_str m)"
    by (cases "MTID_str m") (simp_all add: MTID_hash_def)
  show "MTID_str m =
     map_sum id
       (\<lambda>bs. join '':'' (map (\<lambda>c. [digit_char (unat c div 16), digit_char (unat c mod 16)]) bs))
       (pack m)"
    by (rule MTID_str_pack)
  show "MTID_str (MTID_init ts (Some (c # cs))) =
     Inr ([digit_char (unat c div 16), digit_char (unat c mod 16)] @
          concat (map (\<lambda>d. [CHR '':'', digit_char (unat d div 16), digit_char (unat d mod 16)]) cs))"
    by (simp add: MTID_str_pack pack_nonempty join_Cons comp_def)
  show "MTID_str (MTID_init ts (Some [0x12, 0x34, 0xAB, 0xCD])) = Inr ''12:34:AB:CD''"
    by (simp add: MTID_str_pack pack_nonempty digit_char_def)
  show "MTID_hash H (MTID_init ts None) = Inl (RuntimeError ''Not implemented'')"
    by (simp add: MTID_hash_def MTID_str_def pack_None)
  show "pack (MTID_init ts None) = Inl (RuntimeError ''Not implemented'')"
    by (rule pack_None)
qed

end
